theory Spec2Isabelle
  imports Complex_Main "HOL-Library.Word"
begin

section \<open>The Hoeffding tree command-line driver\<close>

text \<open>
  The development embeds \<^verbatim>\<open>mlpackMain\<close> of
  \<^verbatim>\<open>src/mlpack/methods/hoeffding_trees/hoeffding_tree_main.cpp\<close>.
  The class \<^verbatim>\<open>HoeffdingTreeModel\<close>, the parameter checks of
  \<^verbatim>\<open>mlpack/core/util/param_checks.hpp\<close> and \<^verbatim>\<open>DatasetInfo\<close> are included by the
  driver but are not among the sources. The driver's calls on the model are therefore kept
  as an uninterpreted history (what was called, with which arguments, in which order), and
  the values the driver reads back from the model are taken from parameters.
\<close>

subsection \<open>Machine integers\<close>

text \<open>
  \<^verbatim>\<open>PARAM_INT_IN\<close> parameters are C++ \<^verbatim>\<open>int\<close> (32 bits, two's complement); the driver
  converts them with \<^verbatim>\<open>(size_t)\<close>, which sign-extends to 64 bits and reads the result as
  unsigned.
\<close>

type_synonym c_int = "32 word"
type_synonym size_t = "64 word"

definition to_size_t :: "c_int \<Rightarrow> size_t" where
  "to_size_t x = scast x"

subsection \<open>Dataset schema\<close>

text \<open>
  Modelled from the spec: \<^verbatim>\<open>DatasetInfo\<close> (\<^verbatim>\<open>mlpack/core/data/dataset_mapper.hpp\<close>) is
  missing from the sources. The spec has the dataset schema as an "ordered sequence of
  dimensions, each tagged categorical(arity) or numeric". A default-constructed
  \<^verbatim>\<open>DatasetInfo\<close> (line 143) is the schema with no dimension.
\<close>

datatype dimension = categorical nat | numeric

type_synonym DatasetInfo = "dimension list"

definition default_DatasetInfo :: DatasetInfo where
  "default_DatasetInfo = []"

subsection \<open>Command-line parameters\<close>

text \<open>
  One field per \<^verbatim>\<open>PARAM_*\<close> declaration (lines 71 to 107). A parameter that was not
  passed is \<open>None\<close> (a flag: \<open>False\<close>); output parameters only record whether they were
  requested. \<open>'d\<close> is \<^verbatim>\<open>arma::mat\<close>, which the driver never looks into, \<open>'m\<close> is the content
  of a model file. The test parameter is the file before loading: it yields the matrix
  once a \<^verbatim>\<open>DatasetInfo\<close> is given (lines 245 and 246). A \<^verbatim>\<open>double\<close> is only carried from the
  command line to \<^verbatim>\<open>BuildModel\<close>, so it is a \<open>real\<close>.
\<close>

record ('d, 'm) params =
  training :: "(DatasetInfo \<times> 'd) option"
  labels :: "size_t list option"
  confidence :: "real option"
  max_samples :: "c_int option"
  min_samples :: "c_int option"
  input_model :: "'m option"
  output_model :: bool
  test :: "(DatasetInfo \<Rightarrow> 'd) option"
  test_labels :: "size_t list option"
  predictions :: bool
  probabilities :: bool
  numeric_split_strategy :: "string option"
  batch_mode :: bool
  info_gain :: bool
  passes :: "c_int option"
  bins :: "c_int option"
  observations_before_binning :: "c_int option"

definition HasParam :: "('d, 'm) params \<Rightarrow> string \<Rightarrow> bool" where
  "HasParam P name =
    (if name = ''training'' then training P \<noteq> None
     else if name = ''labels'' then labels P \<noteq> None
     else if name = ''confidence'' then confidence P \<noteq> None
     else if name = ''max_samples'' then max_samples P \<noteq> None
     else if name = ''min_samples'' then min_samples P \<noteq> None
     else if name = ''input_model'' then input_model P \<noteq> None
     else if name = ''output_model'' then output_model P
     else if name = ''test'' then test P \<noteq> None
     else if name = ''test_labels'' then test_labels P \<noteq> None
     else if name = ''predictions'' then predictions P
     else if name = ''probabilities'' then probabilities P
     else if name = ''numeric_split_strategy'' then numeric_split_strategy P \<noteq> None
     else if name = ''batch_mode'' then batch_mode P
     else if name = ''info_gain'' then info_gain P
     else if name = ''passes'' then passes P \<noteq> None
     else if name = ''bins'' then bins P \<noteq> None
     else if name = ''observations_before_binning'' then observations_before_binning P \<noteq> None
     else False)"

text \<open>\<^verbatim>\<open>CLI::GetParam\<close>: the value passed, or the default of the declaration.\<close>

definition GetParam_confidence :: "('d, 'm) params \<Rightarrow> real" where
  "GetParam_confidence P = (case confidence P of None \<Rightarrow> 95 / 100 | Some c \<Rightarrow> c)"

definition GetParam_max_samples :: "('d, 'm) params \<Rightarrow> c_int" where
  "GetParam_max_samples P = (case max_samples P of None \<Rightarrow> 5000 | Some n \<Rightarrow> n)"

definition GetParam_min_samples :: "('d, 'm) params \<Rightarrow> c_int" where
  "GetParam_min_samples P = (case min_samples P of None \<Rightarrow> 100 | Some n \<Rightarrow> n)"

definition GetParam_numeric_split_strategy :: "('d, 'm) params \<Rightarrow> string" where
  "GetParam_numeric_split_strategy P =
    (case numeric_split_strategy P of None \<Rightarrow> ''binary'' | Some s \<Rightarrow> s)"

definition GetParam_passes :: "('d, 'm) params \<Rightarrow> c_int" where
  "GetParam_passes P = (case passes P of None \<Rightarrow> 1 | Some n \<Rightarrow> n)"

definition GetParam_bins :: "('d, 'm) params \<Rightarrow> c_int" where
  "GetParam_bins P = (case bins P of None \<Rightarrow> 10 | Some n \<Rightarrow> n)"

definition GetParam_observations_before_binning :: "('d, 'm) params \<Rightarrow> c_int" where
  "GetParam_observations_before_binning P =
    (case observations_before_binning P of None \<Rightarrow> 100 | Some n \<Rightarrow> n)"

definition GetParam_labels :: "('d, 'm) params \<Rightarrow> size_t list" where
  "GetParam_labels P = (case labels P of None \<Rightarrow> [] | Some l \<Rightarrow> l)"

definition GetParam_test_labels :: "('d, 'm) params \<Rightarrow> size_t list" where
  "GetParam_test_labels P = (case test_labels P of None \<Rightarrow> [] | Some l \<Rightarrow> l)"

subsection \<open>Parameter checks\<close>

text \<open>
  Modelled from the spec: \<^verbatim>\<open>RequireAtLeastOnePassed\<close>, \<^verbatim>\<open>RequireOnlyOnePassed\<close>,
  \<^verbatim>\<open>ReportIgnoredParam\<close> and \<^verbatim>\<open>RequireParamInSet\<close> (\<^verbatim>\<open>mlpack/core/util/param_checks.hpp\<close>)
  are missing from the sources. The spec has an invalid configuration "raised eagerly at
  model construction, before any training occurs" and fatal. A check therefore reports
  on the parameters it is given: nothing when its requirement is met, and otherwise a
  fatal error when the driver passes \<^verbatim>\<open>fatal = true\<close> and a warning when it passes
  \<^verbatim>\<open>false\<close>. \<^verbatim>\<open>ReportIgnoredParam\<close> has no \<^verbatim>\<open>fatal\<close> argument and only warns. The text of a
  report is the message the driver passes (empty when it passes none).
\<close>

datatype report = Quiet | Warn string | Fatal string

definition raise :: "bool \<Rightarrow> string \<Rightarrow> report" where
  "raise fatal msg = (if fatal then Fatal msg else Warn msg)"

definition RequireAtLeastOnePassed ::
  "('d, 'm) params \<Rightarrow> string list \<Rightarrow> bool \<Rightarrow> string \<Rightarrow> report" where
  "RequireAtLeastOnePassed P names fatal msg =
    (if length (filter (HasParam P) names) = 0 then raise fatal msg else Quiet)"

definition RequireOnlyOnePassed ::
  "('d, 'm) params \<Rightarrow> string list \<Rightarrow> bool \<Rightarrow> string \<Rightarrow> report" where
  "RequireOnlyOnePassed P names fatal msg =
    (if length (filter (HasParam P) names) = 1 then Quiet else raise fatal msg)"

definition ReportIgnoredParam ::
  "('d, 'm) params \<Rightarrow> (string \<times> bool) list \<Rightarrow> string \<Rightarrow> report" where
  "ReportIgnoredParam P constraints name =
    (if list_all (\<lambda>c. HasParam P (fst c) = snd c) constraints \<and> HasParam P name
     then Warn name else Quiet)"

definition RequireParamInSet :: "string \<Rightarrow> string list \<Rightarrow> bool \<Rightarrow> string \<Rightarrow> report" where
  "RequireParamInSet val allowed fatal msg =
    (if val \<in> set allowed then Quiet else raise fatal msg)"

text \<open>
  Reports in the order of the calls; a fatal one ends the run (\<^verbatim>\<open>Log::Fatal\<close> throws) and
  the checks after it are not reached.
\<close>

fun run_checks :: "report list \<Rightarrow> string list \<Rightarrow> string + string list" where
  "run_checks [] ws = Inr ws"
| "run_checks (Quiet # rs) ws = run_checks rs ws"
| "run_checks (Warn m # rs) ws = run_checks rs (ws @ [m])"
| "run_checks (Fatal m # rs) ws = Inl m"

text \<open>Lines 114 to 139.\<close>

definition check_params :: "('d, 'm) params \<Rightarrow> string + string list" where
  "check_params P = run_checks
    [ RequireAtLeastOnePassed P [''training'', ''input_model''] True [],
      RequireAtLeastOnePassed P
        [''output_model'', ''predictions'', ''probabilities'', ''test_labels'']
        False ''no output will be given'',
      ReportIgnoredParam P [(''test'', False)] ''probabilities'',
      ReportIgnoredParam P [(''test'', False)] ''predictions'',
      (if HasParam P ''training'' then RequireOnlyOnePassed P [''labels''] True [] else Quiet),
      ReportIgnoredParam P [(''training'', False)] ''batch_mode'',
      ReportIgnoredParam P [(''training'', False)] ''passes'',
      (if HasParam P ''test''
       then RequireAtLeastOnePassed P [''predictions'', ''probabilities'', ''test_labels'']
              False ''no output will be given''
       else Quiet),
      RequireParamInSet (GetParam_numeric_split_strategy P) [''domingos'', ''binary'']
        True ''unrecognized numeric split strategy'' ]
    []"

subsection \<open>The model, as the driver sees it\<close>

datatype TreeType = GINI_HOEFFDING | GINI_BINARY | INFO_HOEFFDING | INFO_BINARY

text \<open>
  Where the model object comes from: the default constructor (line 142), the constructor
  with a tree type (lines 153 to 160), or the input model (line 148).
\<close>

datatype 'm origin = Default_constructed | Constructed TreeType | Loaded 'm

text \<open>The eleven arguments of \<^verbatim>\<open>BuildModel\<close> (lines 197 to 199), in their order.\<close>

record 'd build_args =
  arg_trainingSet :: 'd
  arg_datasetInfo :: DatasetInfo
  arg_labels :: "size_t list"
  arg_numClasses :: size_t
  arg_batchTraining :: bool
  arg_confidence :: real
  arg_maxSamples :: size_t
  arg_checkInterval :: size_t
  arg_minSamples :: size_t
  arg_bins :: size_t
  arg_observationsBeforeBinning :: size_t

text \<open>
  A call of a method of the model. \<open>Classify_call\<close> is the overload with predictions only
  (line 225), \<open>Classify_probabilities_call\<close> the one that also gives probabilities
  (line 252).
\<close>

datatype 'd call =
    BuildModel_call "'d build_args"
  | Train_call 'd "size_t list" bool
  | Classify_call 'd
  | NumNodes_call
  | Classify_probabilities_call 'd

record ('d, 'm) HoeffdingTreeModel =
  origin :: "'m origin"
  calls :: "'d call list"

definition new_model :: "'m origin \<Rightarrow> ('d, 'm) HoeffdingTreeModel" where
  "new_model orig = \<lparr>origin = orig, calls = []\<rparr>"

definition invoke :: "'d call \<Rightarrow> ('d, 'm) HoeffdingTreeModel \<Rightarrow> ('d, 'm) HoeffdingTreeModel" where
  "invoke c m = m\<lparr>calls := calls m @ [c]\<rparr>"

text \<open>
  What the driver reads back from code that is not in the sources: a default-constructed
  \<^verbatim>\<open>arma::mat\<close> (line 144), the largest label
  (\<^verbatim>\<open>arma::max\<close>, line 198), and the predictions and probabilities that \<^verbatim>\<open>Classify\<close> writes,
  which may depend on the model and everything called on it so far.
\<close>

record ('d, 'm) externals =
  empty_mat :: 'd
  arma_max :: "size_t list \<Rightarrow> size_t"
  Classify_predictions :: "('d, 'm) HoeffdingTreeModel \<Rightarrow> 'd \<Rightarrow> size_t list"
  Classify_probabilities :: "('d, 'm) HoeffdingTreeModel \<Rightarrow> 'd \<Rightarrow> real list"


subsection \<open>The state of the driver\<close>

text \<open>
  The percentage of a report is a \<^verbatim>\<open>double\<close> expression; it is kept as the expression the
  driver evaluates, not as a number.
\<close>

datatype dexpr =
    Double_of_size size_t
  | Divide dexpr dexpr
  | Times dexpr dexpr
  | Double_100

text \<open>
  The line "c out of n correct on s (v)" of \<^verbatim>\<open>Log::Info\<close> (lines 232 to 234 and 266 to 268):
  the name of the set, c, n and v.
\<close>

datatype info = Correct_report string size_t size_t dexpr

text \<open>
  The local variables of \<^verbatim>\<open>mlpackMain\<close> that outlive a block (lines 142 to 145), what was
  written to \<^verbatim>\<open>Log::Warn\<close> and \<^verbatim>\<open>Log::Info\<close>, the \<^verbatim>\<open>DatasetInfo\<close> written into the test
  parameter (line 245), and the output parameters.
\<close>

record ('d, 'm) state =
  model :: "('d, 'm) HoeffdingTreeModel"
  datasetInfo :: DatasetInfo
  trainingSet :: 'd
  labels_row :: "size_t list"
  warnings :: "string list"
  info_log :: "info list"
  test_info :: "DatasetInfo option"
  predictions_out :: "size_t list option"
  probabilities_out :: "real list option"
  output_model_out :: "('d, 'm) HoeffdingTreeModel option"

text \<open>
  How a run ends: with a fatal error of a parameter check, before line 142 (no model
  object exists yet); with a read past the end of the predictions in one of the two
  counting loops (\<^verbatim>\<open>predictions[i]\<close> is not bounds-checked), the state being the one reached
  at the loop; or at the end of \<^verbatim>\<open>mlpackMain\<close>. The \<^verbatim>\<open>Timer\<close> calls and the lines of
  \<^verbatim>\<open>Log::Info\<close> on the numbers of mappings and of nodes change nothing the driver uses and
  are left out, except that \<^verbatim>\<open>NumNodes\<close> is a call on the model.
\<close>

datatype ('d, 'm) result =
    Fatal_in_checks string
  | Out_of_bounds "('d, 'm) state"
  | Finished "('d, 'm) state"

subsection \<open>Lines 141 to 161: the model object\<close>

definition initial_model :: "('d, 'm) params \<Rightarrow> ('d, 'm) HoeffdingTreeModel" where
  "initial_model P =
    (case input_model P of
       Some m \<Rightarrow> new_model (Loaded m)
     | None \<Rightarrow>
        if \<not> HasParam P ''info_gain'' \<and> GetParam_numeric_split_strategy P = ''domingos''
        then new_model (Constructed GINI_HOEFFDING)
        else if \<not> HasParam P ''info_gain'' \<and> GetParam_numeric_split_strategy P = ''binary''
        then new_model (Constructed GINI_BINARY)
        else if HasParam P ''info_gain'' \<and> GetParam_numeric_split_strategy P = ''domingos''
        then new_model (Constructed INFO_HOEFFDING)
        else if HasParam P ''info_gain'' \<and> GetParam_numeric_split_strategy P = ''binary''
        then new_model (Constructed INFO_BINARY)
        else new_model Default_constructed)"

definition initial_state ::
  "('d, 'm) externals \<Rightarrow> ('d, 'm) params \<Rightarrow> string list \<Rightarrow> ('d, 'm) state" where
  "initial_state X P ws =
    \<lparr> model = initial_model P, datasetInfo = default_DatasetInfo, trainingSet = empty_mat X,
      labels_row = [], warnings = ws, info_log = [], test_info = None,
      predictions_out = None, probabilities_out = None, output_model_out = None \<rparr>"

subsection \<open>Lines 163 to 218: training\<close>

text \<open>Lines 174 to 176.\<close>

definition force_streaming :: "size_t \<Rightarrow> bool \<Rightarrow> bool" where
  "force_streaming passes0 batchTraining = (if 1 < passes0 then False else batchTraining)"

text \<open>Lines 197 to 199: the arguments of \<^verbatim>\<open>BuildModel\<close>.\<close>

definition BuildModel_args ::
  "('d, 'm) externals \<Rightarrow> ('d, 'm) params \<Rightarrow> DatasetInfo \<Rightarrow> 'd \<Rightarrow> size_t list \<Rightarrow> bool \<Rightarrow>
   'd build_args" where
  "BuildModel_args X P info tset labs batchTraining =
    \<lparr> arg_trainingSet = tset, arg_datasetInfo = info, arg_labels = labs,
      arg_numClasses = arma_max X labs + 1, arg_batchTraining = batchTraining,
      arg_confidence = GetParam_confidence P,
      arg_maxSamples = to_size_t (GetParam_max_samples P),
      arg_checkInterval = 100,
      arg_minSamples = to_size_t (GetParam_min_samples P),
      arg_bins = to_size_t (GetParam_bins P),
      arg_observationsBeforeBinning = to_size_t (GetParam_observations_before_binning P) \<rparr>"

text \<open>Lines 194 to 201: the model and the pass counter after them.\<close>

definition build_step ::
  "('d, 'm) externals \<Rightarrow> ('d, 'm) params \<Rightarrow> DatasetInfo \<Rightarrow> 'd \<Rightarrow> size_t list \<Rightarrow> bool \<Rightarrow>
   size_t \<Rightarrow> ('d, 'm) HoeffdingTreeModel \<Rightarrow> ('d, 'm) HoeffdingTreeModel \<times> size_t" where
  "build_step X P info tset labs batchTraining passes0 m =
    (if \<not> HasParam P ''input_model''
     then (invoke (BuildModel_call (BuildModel_args X P info tset labs batchTraining)) m,
           passes0 - 1)
     else (m, passes0))"

text \<open>Lines 213 and 214: \<^verbatim>\<open>for (size_t p = 0; p < passes; ++p)\<close>.\<close>

function Train_loop ::
  "size_t \<Rightarrow> size_t \<Rightarrow> 'd \<Rightarrow> size_t list \<Rightarrow> ('d, 'm) HoeffdingTreeModel \<Rightarrow>
   ('d, 'm) HoeffdingTreeModel" where
  "Train_loop p passes1 tset labs m =
    (if p < passes1
     then Train_loop (p + 1) passes1 tset labs (invoke (Train_call tset labs False) m)
     else m)"
  by pat_completeness auto
termination
proof (relation "measure (\<lambda>(p, passes1, tset, labs, m). unat passes1 - unat p)")
  show "wf (measure (\<lambda>(p, passes1, tset, labs, m). unat passes1 - unat p))"
    by simp
next
  fix p passes1 :: size_t and tset :: 'd and labs :: "size_t list"
    and m :: "('d, 'm) HoeffdingTreeModel"
  assume less: "p < passes1"
  then have "unat p < unat passes1"
    by (simp add: word_less_nat_alt)
  moreover from less have "unat (p + 1) = unat p + 1"
    by (metis (no_types, lifting) add.commute add_cancel_left_right inc_i
        linorder_le_less_linear unat_plus_simple unsigned_0 unsigned_1 word_less_1)
  ultimately show "((p + 1, passes1, tset, labs, invoke (Train_call tset labs False) m),
      (p, passes1, tset, labs, m))
    \<in> measure (\<lambda>(p, passes1, tset, labs, m). unat passes1 - unat p)"
    by simp
qed

text \<open>Lines 204 to 215.\<close>

definition train_step ::
  "('d, 'm) params \<Rightarrow> 'd \<Rightarrow> size_t list \<Rightarrow> bool \<Rightarrow> size_t \<Rightarrow>
   ('d, 'm) HoeffdingTreeModel \<Rightarrow> ('d, 'm) HoeffdingTreeModel" where
  "train_step P tset labs batchTraining passes1 m =
    (if batchTraining
     then (if HasParam P ''input_model'' then invoke (Train_call tset labs True) m else m)
     else Train_loop 0 passes1 tset labs m)"

definition training_phase ::
  "('d, 'm) externals \<Rightarrow> ('d, 'm) params \<Rightarrow> ('d, 'm) state \<Rightarrow> ('d, 'm) state" where
  "training_phase X P S =
    (case training P of
       None \<Rightarrow> S
     | Some (info, tset) \<Rightarrow>
        (let passes0 = to_size_t (GetParam_passes P);
            batchTraining = force_streaming passes0 (HasParam P ''batch_mode'');
            labs = GetParam_labels P;
            (m1, passes1) = build_step X P info tset labs batchTraining passes0 (model S);
            m2 = train_step P tset labs batchTraining passes1 m1
         in S\<lparr>model := m2, datasetInfo := info, trainingSet := tset, labels_row := labs\<rparr>))"

subsection \<open>Lines 220 to 235 and 255 to 269: counting correct predictions\<close>

text \<open>
  \<^verbatim>\<open>for (size_t i = 0; i < labels.n_elem; ++i) if (labels[i] == predictions[i]) ++correct;\<close>
  The loop runs over the supplied labels and reads the predictions at the same index;
  a read past the end of the predictions is \<open>None\<close>. Rows are lists, so \<open>i\<close> is an index
  into a list; a row of Armadillo has fewer than \<open>2 ^ 64\<close> elements.
\<close>

function count_correct :: "size_t list \<Rightarrow> size_t list \<Rightarrow> nat \<Rightarrow> size_t \<Rightarrow> size_t option" where
  "count_correct given predicted i correct =
    (if i < length given
     then (if i < length predicted
           then count_correct given predicted (Suc i)
                  (if given ! i = predicted ! i then correct + 1 else correct)
           else None)
     else Some correct)"
  by pat_completeness auto
termination
  by (relation "measure (\<lambda>(given, predicted, i, correct). length given - i)") auto

text \<open>
  The percentage of lines 233 and 267:
  \<^verbatim>\<open>double(correct) / double(labels.n_elem) * 100.0\<close>.
\<close>

definition percentage :: "size_t \<Rightarrow> size_t \<Rightarrow> dexpr" where
  "percentage correct n_elem =
    Times (Divide (Double_of_size correct) (Double_of_size n_elem)) Double_100"

text \<open>The counting loop and the report of lines 227 to 234 and 260 to 268.\<close>

definition correct_report :: "string \<Rightarrow> size_t list \<Rightarrow> size_t list \<Rightarrow> info option" where
  "correct_report name given predicted =
    (case count_correct given predicted 0 0 of
       None \<Rightarrow> None
     | Some correct \<Rightarrow>
        Some (Correct_report name correct (of_nat (length given))
          (percentage correct (of_nat (length given)))))"

text \<open>
  Lines 220 to 235. \<open>Inl\<close> is the state at a read past the end of the predictions,
  \<open>Inr\<close> the state after the block.
\<close>

definition training_error ::
  "('d, 'm) externals \<Rightarrow> ('d, 'm) params \<Rightarrow> ('d, 'm) state \<Rightarrow> ('d, 'm) state + ('d, 'm) state" where
  "training_error X P S =
    (if HasParam P ''training''
     then (let predicted = Classify_predictions X (model S) (trainingSet S);
               S1 = S\<lparr>model := invoke (Classify_call (trainingSet S)) (model S)\<rparr>
           in (case correct_report ''training set'' (labels_row S) predicted of
                 None \<Rightarrow> Inl S1
               | Some r \<Rightarrow> Inr (S1\<lparr>info_log := info_log S1 @ [r]\<rparr>)))
     else Inr S)"

text \<open>Line 238.\<close>

definition count_nodes :: "('d, 'm) state \<Rightarrow> ('d, 'm) state" where
  "count_nodes S = S\<lparr>model := invoke NumNodes_call (model S)\<rparr>"

text \<open>Lines 240 to 276, with \<open>Inl\<close> and \<open>Inr\<close> as before.\<close>

definition testing_phase ::
  "('d, 'm) externals \<Rightarrow> ('d, 'm) params \<Rightarrow> ('d, 'm) state \<Rightarrow> ('d, 'm) state + ('d, 'm) state" where
  "testing_phase X P S =
    (case test P of
       None \<Rightarrow> Inr S
     | Some file \<Rightarrow>
        (let testSet = file (datasetInfo S);
            predicted = Classify_predictions X (model S) testSet;
            probs = Classify_probabilities X (model S) testSet;
            S1 = S\<lparr>test_info := Some (datasetInfo S),
                   model := invoke (Classify_probabilities_call testSet) (model S)\<rparr>;
            S2 = (if HasParam P ''test_labels''
                  then (case correct_report ''test set'' (GetParam_test_labels P) predicted of
                          None \<Rightarrow> Inl S1
                        | Some r \<Rightarrow> Inr (S1\<lparr>info_log := info_log S1 @ [r]\<rparr>))
                  else Inr S1)
        in (case S2 of
              Inl S3 \<Rightarrow> Inl S3
            | Inr S3 \<Rightarrow>
               Inr (S3\<lparr>predictions_out :=
                          (if HasParam P ''predictions'' then Some predicted else None),
                        probabilities_out :=
                          (if HasParam P ''probabilities'' then Some probs else None)\<rparr>))))"

text \<open>Lines 278 to 280.\<close>

definition save_model :: "('d, 'm) params \<Rightarrow> ('d, 'm) state \<Rightarrow> ('d, 'm) state" where
  "save_model P S =
    (if HasParam P ''output_model'' then S\<lparr>output_model_out := Some (model S)\<rparr> else S)"

subsection \<open>\<^verbatim>\<open>mlpackMain\<close>\<close>

definition mlpackMain :: "('d, 'm) externals \<Rightarrow> ('d, 'm) params \<Rightarrow> ('d, 'm) result" where
  "mlpackMain X P =
    (case check_params P of
       Inl msg \<Rightarrow> Fatal_in_checks msg
     | Inr ws \<Rightarrow>
        (let S1 = training_phase X P (initial_state X P ws)
         in (case training_error X P S1 of
               Inl S2 \<Rightarrow> Out_of_bounds S2
             | Inr S2 \<Rightarrow>
                (let S3 = count_nodes S2
                 in (case testing_phase X P S3 of
                       Inl S4 \<Rightarrow> Out_of_bounds S4
                     | Inr S4 \<Rightarrow> Finished (save_model P S4))))))"

subsection \<open>Reading a run\<close>

text \<open>The calls on the model made during a run, in their order.\<close>

definition calls_of :: "('d, 'm) result \<Rightarrow> 'd call list" where
  "calls_of r =
    (case r of
       Fatal_in_checks msg \<Rightarrow> []
     | Out_of_bounds S \<Rightarrow> calls (model S)
     | Finished S \<Rightarrow> calls (model S))"

text \<open>Whether a call is a pass over a training set, and whether it is a batch pass.\<close>

fun is_pass :: "'d call \<Rightarrow> bool" where
  "is_pass (BuildModel_call a) = True"
| "is_pass (Train_call tset labs batch) = True"
| "is_pass c = False"

fun is_batch_pass :: "'d call \<Rightarrow> bool" where
  "is_batch_pass (BuildModel_call a) = arg_batchTraining a"
| "is_batch_pass (Train_call tset labs batch) = batch"
| "is_batch_pass c = False"

definition passes_of :: "('d, 'm) result \<Rightarrow> 'd call list" where
  "passes_of r = filter is_pass (calls_of r)"

text \<open>The state a run ended in, when it got past the parameter checks.\<close>

definition state_of :: "('d, 'm) result \<Rightarrow> ('d, 'm) state option" where
  "state_of r =
    (case r of
       Fatal_in_checks msg \<Rightarrow> None
     | Out_of_bounds S \<Rightarrow> Some S
     | Finished S \<Rightarrow> Some S)"

definition model_of :: "('d, 'm) result \<Rightarrow> ('d, 'm) HoeffdingTreeModel option" where
  "model_of r = (case state_of r of None \<Rightarrow> None | Some S \<Rightarrow> Some (model S))"

fun finished :: "('d, 'm) result \<Rightarrow> bool" where
  "finished (Finished S) = True"
| "finished r = False"

text \<open>The tree type of the model of a run, when the run constructed the model with one.\<close>

definition tree_type_of :: "('d, 'm) result \<Rightarrow> TreeType option" where
  "tree_type_of r =
    (case model_of r of
       None \<Rightarrow> None
     | Some m \<Rightarrow> (case origin m of Constructed t \<Rightarrow> Some t | orig \<Rightarrow> None))"

text \<open>The \<^verbatim>\<open>DatasetInfo\<close> that a run wrote into the test parameter before loading it.\<close>

definition test_info_of :: "('d, 'm) result \<Rightarrow> DatasetInfo option" where
  "test_info_of r = (case state_of r of None \<Rightarrow> None | Some S \<Rightarrow> test_info S)"

text \<open>
  Numbers of the form \<open>m / 2 ^ k\<close> with an integer \<open>\<bar>m\<bar> \<le> 2 ^ 53\<close> and \<open>k \<le> 63\<close>. Each of
  them is a \<^verbatim>\<open>double\<close> (53 bits of mantissa, an exponent between -63 and 0).
\<close>

fun dyadic :: "nat \<Rightarrow> real \<Rightarrow> bool" where
  "dyadic 0 z = (real_of_int \<lfloor>z\<rfloor> = z \<and> \<bar>z\<bar> \<le> 2 ^ 53)"
| "dyadic (Suc k) z = ((real_of_int \<lfloor>z\<rfloor> = z \<and> \<bar>z\<bar> \<le> 2 ^ 53) \<or> dyadic k (2 * z))"

definition is_double :: "real \<Rightarrow> bool" where
  "is_double z = dyadic 63 z"

definition exactly :: "real \<Rightarrow> real option" where
  "exactly z = (if is_double z then Some z else None)"

text \<open>
  The value of a \<^verbatim>\<open>double\<close> expression, where it can be given without a model of rounding:
  a conversion or an operation of IEEE 754 whose exact result is a \<^verbatim>\<open>double\<close> returns that
  result, so the value is \<open>Some\<close> as long as every intermediate result is one of the
  numbers above. It is \<open>None\<close> where a result would be rounded (as for 1 / 3) and where the
  divisor is zero.
\<close>

fun exact_value :: "dexpr \<Rightarrow> real option" where
  "exact_value (Double_of_size n) = exactly (real (unat n))"
| "exact_value Double_100 = Some 100"
| "exact_value (Divide a b) =
     (case (exact_value a, exact_value b) of
        (Some x, Some y) \<Rightarrow> (if y = 0 then None else exactly (x / y))
      | other \<Rightarrow> None)"
| "exact_value (Times a b) =
     (case (exact_value a, exact_value b) of
        (Some x, Some y) \<Rightarrow> exactly (x * y)
      | other \<Rightarrow> None)"


fun fatal_report :: "report \<Rightarrow> bool" where
  "fatal_report (Fatal m) = True"
| "fatal_report r = False"

text \<open>
  The gain criterion and the numeric split strategy that a tree type stands for
  (\<^verbatim>\<open>HOEFFDING\<close> is the binned split of Domingos and Hulten).
\<close>

datatype gainCriterion = giniImpurity | informationGain

datatype numericSplitStrategy = binaryThreshold | binnedHistogram

fun criterion_of :: "TreeType \<Rightarrow> gainCriterion" where
  "criterion_of GINI_HOEFFDING = giniImpurity"
| "criterion_of GINI_BINARY = giniImpurity"
| "criterion_of INFO_HOEFFDING = informationGain"
| "criterion_of INFO_BINARY = informationGain"

fun strategy_of :: "TreeType \<Rightarrow> numericSplitStrategy" where
  "strategy_of GINI_HOEFFDING = binnedHistogram"
| "strategy_of GINI_BINARY = binaryThreshold"
| "strategy_of INFO_HOEFFDING = binnedHistogram"
| "strategy_of INFO_BINARY = binaryThreshold"

text \<open>
  A history of calls never classifies with a model that is still uninitialized: the flag
  says whether the model has been built or loaded so far, and \<^verbatim>\<open>BuildModel\<close> sets it.
\<close>

fun classifies_initialized :: "bool \<Rightarrow> 'd call list \<Rightarrow> bool" where
  "classifies_initialized init [] = True"
| "classifies_initialized init (BuildModel_call a # cs) = classifies_initialized True cs"
| "classifies_initialized init (Classify_call d # cs) =
     (init \<and> classifies_initialized init cs)"
| "classifies_initialized init (Classify_probabilities_call d # cs) =
     (init \<and> classifies_initialized init cs)"
| "classifies_initialized init (c # cs) = classifies_initialized init cs"

fun loaded :: "'m origin \<Rightarrow> bool" where
  "loaded (Loaded m) = True"
| "loaded orig = False"

definition never_classifies_uninitialized :: "('d, 'm) result \<Rightarrow> bool" where
  "never_classifies_uninitialized r =
    (case model_of r of
       None \<Rightarrow> True
     | Some m \<Rightarrow> classifies_initialized (loaded (origin m)) (calls m))"

text \<open>The schemas a model has been built with.\<close>

fun built_with :: "'d call list \<Rightarrow> DatasetInfo list" where
  "built_with [] = []"
| "built_with (BuildModel_call a # cs) = arg_datasetInfo a # built_with cs"
| "built_with (c # cs) = built_with cs"

section \<open>Concrete runs\<close>

text \<open>
  A training set of four examples with one categorical dimension of arity 2 and the
  labels 0, 1, 0, 1 (the matrix itself is only named, by a number), and a classifier that
  answers 0, 1, 1, 1.
\<close>

definition X0 :: "(nat, 'm) externals" where
  "X0 = \<lparr> empty_mat = 0, arma_max = (\<lambda>labs. fold max labs 0),
          Classify_predictions = (\<lambda>m d. [0, 1, 1, 1]),
          Classify_probabilities = (\<lambda>m d. [1, 1, 1, 1]) \<rparr>"

definition P0 :: "(nat, nat) params" where
  "P0 = \<lparr> training = Some ([categorical 2], 7), labels = Some [0, 1, 0, 1],
          confidence = None, max_samples = None, min_samples = None, input_model = None,
          output_model = True, test = None, test_labels = None, predictions = False,
          probabilities = False, numeric_split_strategy = None, batch_mode = False,
          info_gain = False, passes = None, bins = None,
          observations_before_binning = None \<rparr>"

text \<open>A second run, which loads the model that the run on \<open>P0\<close> saved and only tests.\<close>

definition saved_model_of :: "('d, 'm) result \<Rightarrow> ('d, 'm) HoeffdingTreeModel option" where
  "saved_model_of r = (case state_of r of None \<Rightarrow> None | Some S \<Rightarrow> output_model_out S)"

definition saved_model :: "(nat, nat) HoeffdingTreeModel option" where
  "saved_model = saved_model_of (mlpackMain X0 P0)"

definition P_test :: "(nat, (nat, nat) HoeffdingTreeModel) params" where
  "P_test = \<lparr> training = None, labels = None,
          confidence = None, max_samples = None, min_samples = None,
          input_model = saved_model,
          output_model = False, test = Some (\<lambda>info. 8), test_labels = None,
          predictions = True, probabilities = False, numeric_split_strategy = None,
          batch_mode = False, info_gain = False, passes = None, bins = None,
          observations_before_binning = None \<rparr>"

declare Train_loop.simps [simp del] count_correct.simps [simp del]

section \<open>Facts about the driver\<close>

subsection \<open>Conversions to \<^verbatim>\<open>size_t\<close>\<close>

lemma uint_to_size_t:
  "uint (to_size_t p) = (if 0 \<le> sint p then sint p else 2 ^ 64 + sint p)"
proof -
  have lo: "- (2 ^ 31) \<le> sint p" and hi: "sint p < 2 ^ 31"
    using sint_ge [of p] sint_lt [of p] by simp_all
  have "(scast p :: 64 word) = word_of_int (sint p)"
    by (rule scast_eq)
  then have "uint (scast p :: 64 word) = uint (word_of_int (sint p) :: 64 word)"
    by (rule arg_cong)
  also have "\<dots> = sint p mod 2 ^ 64"
    by (simp only: uint_word_of_int len_bit0 len_num1 mult_1_right) simp
  also have "\<dots> = (if 0 \<le> sint p then sint p else 2 ^ 64 + sint p)"
  proof (cases "0 \<le> sint p")
    case True
    with hi show ?thesis by simp
  next
    case False
    have "sint p mod 2 ^ 64 = (sint p + 2 ^ 64) mod 2 ^ 64"
      by simp
    also from lo False have "\<dots> = sint p + 2 ^ 64"
      by (simp add: mod_pos_pos_trivial del: mod_add_self2)
    finally show ?thesis using False by simp
  qed
  finally show ?thesis by (simp add: to_size_t_def)
qed

lemma to_size_t_gt_1: "1 <s p \<Longrightarrow> 1 < to_size_t p"
  by (simp add: word_less_def word_sless_alt uint_to_size_t)

lemma to_size_t_negative: "p <s 0 \<Longrightarrow> 1 < to_size_t p"
  using sint_ge [of p] by (simp add: word_less_def word_sless_alt uint_to_size_t)

lemma unat_to_size_t: "0 \<le>s p \<Longrightarrow> unat (to_size_t p) = nat (sint p)"
  by (simp add: unat_eq_nat_uint uint_to_size_t word_sle_eq)

lemma unat_to_size_t_pred: "1 \<le>s p \<Longrightarrow> unat (to_size_t p - 1) = nat (sint p) - 1"
proof -
  assume p: "1 \<le>s p"
  then have pos: "1 \<le> sint p"
    by (simp add: word_sle_eq)
  then have u: "unat (to_size_t p) = nat (sint p)"
    by (simp add: unat_eq_nat_uint uint_to_size_t)
  with pos have "1 \<le> unat (to_size_t p)"
    by simp
  then have "unat (to_size_t p - 1) = unat (to_size_t p) - 1"
    by (metis unat_minus_one unsigned_eq_0_iff not_one_le_zero)
  with u show ?thesis by simp
qed

lemma unat_minus_1_size_t: "unat (- 1 :: size_t) = 18446744073709551615"
  by (simp add: unsigned_minus_1_eq_mask mask_eq_exp_minus_1)

lemma unat_Suc_size_t: "(p :: size_t) < q \<Longrightarrow> unat (p + 1) = unat p + 1"
  by (metis (no_types, lifting) add.commute add_cancel_left_right inc_i
      linorder_le_less_linear unat_plus_simple unsigned_0 unsigned_1 word_less_1)

lemma Train_loop_calls:
  "Train_loop p n tset labs m =
     m\<lparr>calls := calls m @ replicate (unat n - unat p) (Train_call tset labs False)\<rparr>"
proof (induction p n tset labs m rule: Train_loop.induct)
  case (1 p n tset labs m)
  show ?case
  proof (cases "p < n")
    case True
    then have lt: "unat p < unat n"
      by (simp add: word_less_nat_alt)
    from True have suc: "unat (p + 1) = unat p + 1"
      by (rule unat_Suc_size_t)
    from lt have rep: "replicate (unat n - unat p) (Train_call tset labs False) =
        Train_call tset labs False # replicate (unat n - (unat p + 1)) (Train_call tset labs False)"
      by (cases "unat n - unat p") (simp_all add: Suc_diff_Suc)
    show ?thesis
      using True "1.IH" [OF True]
      by (subst Train_loop.simps) (simp add: suc rep invoke_def)
  next
    case False
    then have "unat n - unat p = 0"
      by (simp add: word_less_nat_alt)
    with False show ?thesis
      by (subst Train_loop.simps) simp
  qed
qed

lemma run_checks_Inr_iff:
  "(\<exists>ws'. run_checks rs ws = Inr ws') = (\<not> list_ex fatal_report rs)"
  by (induction rs ws rule: run_checks.induct) auto

lemma run_checks_Inl_iff:
  "(\<exists>msg. run_checks rs ws = Inl msg) = list_ex fatal_report rs"
  by (induction rs ws rule: run_checks.induct) auto

lemma HasParam_simps:
  "HasParam P ''training'' = (training P \<noteq> None)"
  "HasParam P ''labels'' = (labels P \<noteq> None)"
  "HasParam P ''input_model'' = (input_model P \<noteq> None)"
  "HasParam P ''output_model'' = output_model P"
  "HasParam P ''test'' = (test P \<noteq> None)"
  "HasParam P ''test_labels'' = (test_labels P \<noteq> None)"
  "HasParam P ''predictions'' = predictions P"
  "HasParam P ''probabilities'' = probabilities P"
  "HasParam P ''batch_mode'' = batch_mode P"
  "HasParam P ''info_gain'' = info_gain P"
  "HasParam P ''passes'' = (passes P \<noteq> None)"
  by (simp_all add: HasParam_def)

lemma fatal_report_raise: "fatal_report (raise fatal msg) = fatal"
  by (simp add: raise_def)

lemma fatal_report_RequireAtLeastOnePassed:
  "fatal_report (RequireAtLeastOnePassed P names fatal msg) =
     (fatal \<and> filter (HasParam P) names = [])"
  by (simp add: RequireAtLeastOnePassed_def fatal_report_raise)

lemma fatal_report_RequireOnlyOnePassed:
  "fatal_report (RequireOnlyOnePassed P [name] fatal msg) = (fatal \<and> \<not> HasParam P name)"
  by (simp add: RequireOnlyOnePassed_def fatal_report_raise)

lemma fatal_report_ReportIgnoredParam:
  "fatal_report (ReportIgnoredParam P constraints name) = False"
  by (simp add: ReportIgnoredParam_def)

lemma fatal_report_RequireParamInSet:
  "fatal_report (RequireParamInSet val allowed fatal msg) = (fatal \<and> val \<notin> set allowed)"
  by (simp add: RequireParamInSet_def fatal_report_raise)

lemma fatal_report_if:
  "fatal_report (if c then a else b) = (if c then fatal_report a else fatal_report b)"
  by simp

lemmas fatal_report_checks = fatal_report_RequireAtLeastOnePassed
  fatal_report_RequireOnlyOnePassed fatal_report_ReportIgnoredParam
  fatal_report_RequireParamInSet fatal_report_if

lemma check_params_Inl_iff:
  "(\<exists>msg. check_params P = Inl msg) =
     (training P = None \<and> input_model P = None \<or>
      training P \<noteq> None \<and> labels P = None \<or>
      GetParam_numeric_split_strategy P \<notin> {''domingos'', ''binary''})"
  unfolding check_params_def run_checks_Inl_iff
  by (auto simp add: fatal_report_checks HasParam_simps)

lemma check_params_Inr:
  assumes "check_params P = Inr ws"
  shows "training P \<noteq> None \<or> input_model P \<noteq> None"
    and "training P \<noteq> None \<Longrightarrow> labels P \<noteq> None"
    and "GetParam_numeric_split_strategy P = ''domingos'' \<or>
         GetParam_numeric_split_strategy P = ''binary''"
proof -
  from assms have "\<not> (\<exists>msg. check_params P = Inl msg)"
    by simp
  then have *: "\<not> (training P = None \<and> input_model P = None \<or>
      training P \<noteq> None \<and> labels P = None \<or>
      GetParam_numeric_split_strategy P \<notin> {''domingos'', ''binary''})"
    unfolding check_params_Inl_iff .
  from * show "training P \<noteq> None \<or> input_model P \<noteq> None" by auto
  from * show "training P \<noteq> None \<Longrightarrow> labels P \<noteq> None" by auto
  from * show "GetParam_numeric_split_strategy P = ''domingos'' \<or>
         GetParam_numeric_split_strategy P = ''binary''" by auto
qed



subsection \<open>The calls of a run\<close>

lemma calls_training_phase:
  "calls (model (training_phase X P S)) = calls (model S) @
    (case training P of
       None \<Rightarrow> []
     | Some (info, tset) \<Rightarrow>
        (if input_model P = None
         then [BuildModel_call (BuildModel_args X P info tset (GetParam_labels P)
                 (force_streaming (to_size_t (GetParam_passes P)) (batch_mode P)))]
         else []) @
        (if force_streaming (to_size_t (GetParam_passes P)) (batch_mode P)
         then (if input_model P = None then [] else [Train_call tset (GetParam_labels P) True])
         else replicate
                (unat (if input_model P = None then to_size_t (GetParam_passes P) - 1
                       else to_size_t (GetParam_passes P)))
                (Train_call tset (GetParam_labels P) False)))"
  by (auto simp add: training_phase_def build_step_def train_step_def Train_loop_calls
      HasParam_simps invoke_def Let_def split: option.split)

lemma origin_training_phase: "origin (model (training_phase X P S)) = origin (model S)"
  by (auto simp add: training_phase_def build_step_def train_step_def Train_loop_calls
      HasParam_simps invoke_def Let_def split: option.split)

lemma training_error_Some:
  assumes "training_error X P S = Inl S' \<or> training_error X P S = Inr S'"
  shows "calls (model S') =
      calls (model S) @ (if training P = None then [] else [Classify_call (trainingSet S)])"
    and "origin (model S') = origin (model S)"
    and "datasetInfo S' = datasetInfo S"
    and "test_info S' = test_info S"
  using assms
  by (auto simp add: training_error_def HasParam_simps invoke_def Let_def
      split: if_splits option.splits)

lemmas training_error_Inl = training_error_Some [OF disjI1]

lemmas training_error_Inr = training_error_Some [OF disjI2]

lemma count_nodes_simps:
  "calls (model (count_nodes S)) = calls (model S) @ [NumNodes_call]"
  "origin (model (count_nodes S)) = origin (model S)"
  "datasetInfo (count_nodes S) = datasetInfo S"
  by (simp_all add: count_nodes_def invoke_def)

lemma testing_phase_Some:
  assumes "testing_phase X P S = Inl S' \<or> testing_phase X P S = Inr S'"
  shows "calls (model S') = calls (model S) @
      (case test P of
         None \<Rightarrow> []
       | Some file \<Rightarrow> [Classify_probabilities_call (file (datasetInfo S))])"
    and "origin (model S') = origin (model S)"
    and "test_info S' = (if test P = None then test_info S else Some (datasetInfo S))"
  using assms
  by (auto simp add: testing_phase_def HasParam_simps invoke_def Let_def
      split: if_splits option.splits)

lemmas testing_phase_Inl = testing_phase_Some [OF disjI1]

lemmas testing_phase_Inr = testing_phase_Some [OF disjI2]

lemma save_model_simps:
  "model (save_model P S) = model S"
  "test_info (save_model P S) = test_info S"
  by (simp_all add: save_model_def)

text \<open>The calls of a run that got past the checks: those of the training, then at most three.\<close>

lemma calls_of_mlpackMain:
  assumes "check_params P = Inr ws"
  shows "\<exists>rest. calls_of (mlpackMain X P) =
           calls (model (training_phase X P (initial_state X P ws))) @ rest \<and>
           filter is_pass rest = []"
  using assms
  by (auto simp add: mlpackMain_def calls_of_def Let_def training_error_Inl
      training_error_Inr count_nodes_simps testing_phase_Inl testing_phase_Inr
      save_model_simps split: sum.splits option.splits)

lemma replicate_numeral: "replicate (numeral k) x = x # replicate (pred_numeral k) x"
  by (simp add: numeral_eq_Suc)

lemmas run_defs = mlpackMain_def check_params_def RequireAtLeastOnePassed_def
  RequireOnlyOnePassed_def ReportIgnoredParam_def RequireParamInSet_def raise_def
  HasParam_def initial_state_def initial_model_def new_model_def invoke_def
  training_phase_def force_streaming_def build_step_def BuildModel_args_def train_step_def
  Train_loop_calls training_error_def correct_report_def percentage_def count_correct.simps count_nodes_def
  testing_phase_def save_model_def to_size_t_def
  GetParam_confidence_def GetParam_max_samples_def GetParam_min_samples_def
  GetParam_numeric_split_strategy_def GetParam_passes_def GetParam_bins_def
  GetParam_observations_before_binning_def GetParam_labels_def GetParam_test_labels_def
  default_DatasetInfo_def X0_def P0_def Let_def replicate_numeral

lemma classifies_initialized_True: "classifies_initialized True cs"
proof (induction cs)
  case Nil
  show ?case by simp
next
  case (Cons c cs)
  then show ?case by (cases c) simp_all
qed

lemma is_batch_pass_is_pass: "is_batch_pass c \<Longrightarrow> is_pass c"
  by (cases c) simp_all

lemma filter_is_batch_pass_Nil:
  "filter is_pass cs = [] \<Longrightarrow> filter is_batch_pass cs = []"
  by (auto simp add: filter_empty_conv dest: is_batch_pass_is_pass)

lemma initial_calls: "calls (model (initial_state X P ws)) = []"
  by (simp add: initial_state_def initial_model_def new_model_def split: option.split)

text \<open>The calls of the training of a run that got past the checks.\<close>

lemma training_calls:
  "calls (model (training_phase X P (initial_state X P ws))) =
    (case training P of
       None \<Rightarrow> []
     | Some (info, tset) \<Rightarrow>
        (if input_model P = None
         then [BuildModel_call (BuildModel_args X P info tset (GetParam_labels P)
                 (force_streaming (to_size_t (GetParam_passes P)) (batch_mode P)))]
         else []) @
        (if force_streaming (to_size_t (GetParam_passes P)) (batch_mode P)
         then (if input_model P = None then [] else [Train_call tset (GetParam_labels P) True])
         else replicate
                (unat (if input_model P = None then to_size_t (GetParam_passes P) - 1
                       else to_size_t (GetParam_passes P)))
                (Train_call tset (GetParam_labels P) False)))"
  by (simp add: calls_training_phase initial_calls)

lemma training_calls_are_passes:
  "filter is_pass (calls (model (training_phase X P (initial_state X P ws)))) =
     calls (model (training_phase X P (initial_state X P ws)))"
  by (simp add: training_calls split: option.split)

lemma passes_of_mlpackMain:
  assumes "check_params P = Inr ws"
  shows "passes_of (mlpackMain X P) =
           calls (model (training_phase X P (initial_state X P ws)))"
proof -
  from calls_of_mlpackMain [OF assms, of X] obtain rest where
    c: "calls_of (mlpackMain X P) =
          calls (model (training_phase X P (initial_state X P ws))) @ rest"
    and r: "filter is_pass rest = []"
    by blast
  show ?thesis
    by (simp add: passes_of_def c r training_calls_are_passes)
qed

lemma batch_passes_of_mlpackMain:
  assumes "check_params P = Inr ws"
  shows "filter is_batch_pass (calls_of (mlpackMain X P)) =
           filter is_batch_pass (calls (model (training_phase X P (initial_state X P ws))))"
proof -
  from calls_of_mlpackMain [OF assms, of X] obtain rest where
    c: "calls_of (mlpackMain X P) =
          calls (model (training_phase X P (initial_state X P ws))) @ rest"
    and r: "filter is_pass rest = []"
    by blast
  show ?thesis
    by (simp add: c filter_is_batch_pass_Nil [OF r])
qed

lemma calls_of_fatal: "check_params P = Inl msg \<Longrightarrow> calls_of (mlpackMain X P) = []"
  by (simp add: mlpackMain_def calls_of_def)

lemma force_streaming_simps:
  "force_streaming n False = False"
  "1 < n \<Longrightarrow> force_streaming n b = False"
  "force_streaming n b \<Longrightarrow> b"
  by (simp_all add: force_streaming_def split: if_splits)

lemma arg_batchTraining_BuildModel_args [simp]:
  "arg_batchTraining (BuildModel_args X P info tset labs b) = b"
  by (simp add: BuildModel_args_def)


section \<open>The claims\<close>

subsection \<open>C1: more than one pass forces streaming mode\<close>

text \<open>
  C1. When training data is supplied and more than one pass is requested, the driver
  forces streaming mode whatever the batch flag says (lines 174 to 176): the variable
  \<^verbatim>\<open>batchTraining\<close> is false and no call of the run is a batch pass. And in any run, a
  batch pass is the only pass of the run, so batch mode and several passes never occur
  together.
\<close>

theorem multi_pass_forces_streaming:
  assumes "training P = Some (info, tset)" and "1 <s GetParam_passes P"
  shows "force_streaming (to_size_t (GetParam_passes P)) (HasParam P ''batch_mode'') = False \<and>
         filter is_batch_pass (calls_of (mlpackMain X P)) = [] \<and>
         (filter is_batch_pass (calls_of (mlpackMain X Q)) \<noteq> [] \<longrightarrow>
            length (passes_of (mlpackMain X Q)) = 1)"
proof (intro conjI impI)
  from assms(2) have gt: "1 < to_size_t (GetParam_passes P)"
    by (rule to_size_t_gt_1)
  then show fs: "force_streaming (to_size_t (GetParam_passes P)) (HasParam P ''batch_mode'') = False"
    by (simp add: force_streaming_simps)
  show "filter is_batch_pass (calls_of (mlpackMain X P)) = []"
  proof (cases "check_params P")
    case (Inl msg)
    then show ?thesis by (simp add: calls_of_fatal)
  next
    case (Inr ws)
    show ?thesis
      using gt assms(1)
      by (simp add: batch_passes_of_mlpackMain [OF Inr] training_calls force_streaming_simps)
  qed
next
  assume b: "filter is_batch_pass (calls_of (mlpackMain X Q)) \<noteq> []"
  show "length (passes_of (mlpackMain X Q)) = 1"
  proof (cases "check_params Q")
    case (Inl msg)
    with b show ?thesis by (simp add: calls_of_fatal)
  next
    case (Inr ws)
    from b have "filter is_batch_pass (calls (model (training_phase X Q (initial_state X Q ws)))) \<noteq> []"
      by (simp add: batch_passes_of_mlpackMain [OF Inr])
    then show ?thesis
      by (auto simp add: passes_of_mlpackMain [OF Inr] training_calls
          split: option.splits if_splits)
  qed
qed

text \<open>A run with the batch flag and three passes: no batch pass, three passes.\<close>

theorem multi_pass_forces_streaming_witness:
  "training (P0\<lparr>batch_mode := True, passes := Some 3\<rparr>) = Some ([categorical 2], 7) \<and>
   1 <s GetParam_passes (P0\<lparr>batch_mode := True, passes := Some 3\<rparr>) \<and>
   HasParam (P0\<lparr>batch_mode := True, passes := Some 3\<rparr>) ''batch_mode'' \<and>
   filter is_batch_pass (calls_of (mlpackMain X0 (P0\<lparr>batch_mode := True, passes := Some 3\<rparr>))) = [] \<and>
   length (passes_of (mlpackMain X0 (P0\<lparr>batch_mode := True, passes := Some 3\<rparr>))) = 3"
proof -
  have h1: "training (P0\<lparr>batch_mode := True, passes := Some 3\<rparr>) = Some ([categorical 2], 7)"
    by (simp add: P0_def)
  have h2: "1 <s GetParam_passes (P0\<lparr>batch_mode := True, passes := Some 3\<rparr>)"
    by (simp add: P0_def GetParam_passes_def word_sless_alt)
  have h3: "length (passes_of (mlpackMain X0 (P0\<lparr>batch_mode := True, passes := Some 3\<rparr>))) = 3"
    by (simp add: passes_of_def calls_of_def run_defs)
  from multi_pass_forces_streaming [OF h1 h2, of X0] h1 h2 h3 show ?thesis
    by (simp add: HasParam_def)
qed

subsection \<open>C2: the passes of a run\<close>

lemmas check_defs = RequireAtLeastOnePassed_def RequireOnlyOnePassed_def
  ReportIgnoredParam_def RequireParamInSet_def HasParam_def raise_def

text \<open>
  C2. In a run that trains with a requested pass count \<open>p \<ge> 1\<close>, the passes over the
  training set are exactly these. In streaming mode (\<^verbatim>\<open>batchTraining\<close> false at line 204):
  without an input model, \<^verbatim>\<open>BuildModel\<close> and then \<open>p - 1\<close> calls of \<^verbatim>\<open>Train\<close> with
  \<^verbatim>\<open>batch = false\<close>; with an input model, \<open>p\<close> such calls and no \<^verbatim>\<open>BuildModel\<close>. In batch
  mode: without an input model the one batch pass of \<^verbatim>\<open>BuildModel\<close>, with an input model
  one call of \<^verbatim>\<open>Train\<close> with \<^verbatim>\<open>batch = true\<close>. Every one of these calls, \<^verbatim>\<open>BuildModel\<close>
  included, is given the training set and the labels of the run, and \<^verbatim>\<open>BuildModel\<close> is
  given the mode of the run as its batch argument.
\<close>

theorem passes_performed:
  assumes "check_params P = Inr ws" and "training P = Some (info, tset)"
    and "1 \<le>s GetParam_passes P"
  shows "passes_of (mlpackMain X P) =
    (if force_streaming (to_size_t (GetParam_passes P)) (batch_mode P)
     then (if input_model P = None
           then [BuildModel_call (BuildModel_args X P info tset (GetParam_labels P) True)]
           else [Train_call tset (GetParam_labels P) True])
     else (if input_model P = None
           then BuildModel_call (BuildModel_args X P info tset (GetParam_labels P) False) #
                replicate (nat (sint (GetParam_passes P)) - 1)
                  (Train_call tset (GetParam_labels P) False)
           else replicate (nat (sint (GetParam_passes P)))
                  (Train_call tset (GetParam_labels P) False))) \<and>
    labels P = Some (GetParam_labels P) \<and>
    arg_trainingSet (BuildModel_args X P info tset (GetParam_labels P) b) = tset \<and>
    arg_datasetInfo (BuildModel_args X P info tset (GetParam_labels P) b) = info \<and>
    arg_labels (BuildModel_args X P info tset (GetParam_labels P) b) = GetParam_labels P \<and>
    arg_numClasses (BuildModel_args X P info tset (GetParam_labels P) b) =
      arma_max X (GetParam_labels P) + 1 \<and>
    arg_batchTraining (BuildModel_args X P info tset (GetParam_labels P) b) = b"
proof (intro conjI)
  from assms(3) have "0 \<le>s GetParam_passes P"
    by (simp add: word_sle_eq)
  then have full: "unat (to_size_t (GetParam_passes P)) = nat (sint (GetParam_passes P))"
    by (rule unat_to_size_t)
  from assms(3) have pred: "unat (to_size_t (GetParam_passes P) - 1) =
      nat (sint (GetParam_passes P)) - 1"
    by (rule unat_to_size_t_pred)
  show "passes_of (mlpackMain X P) =
    (if force_streaming (to_size_t (GetParam_passes P)) (batch_mode P)
     then (if input_model P = None
           then [BuildModel_call (BuildModel_args X P info tset (GetParam_labels P) True)]
           else [Train_call tset (GetParam_labels P) True])
     else (if input_model P = None
           then BuildModel_call (BuildModel_args X P info tset (GetParam_labels P) False) #
                replicate (nat (sint (GetParam_passes P)) - 1)
                  (Train_call tset (GetParam_labels P) False)
           else replicate (nat (sint (GetParam_passes P)))
                  (Train_call tset (GetParam_labels P) False)))"
    by (simp add: passes_of_mlpackMain [OF assms(1)] training_calls assms(2) full pred)
next
  from check_params_Inr(2) [OF assms(1)] assms(2) show "labels P = Some (GetParam_labels P)"
    by (auto simp add: GetParam_labels_def)
qed (simp_all add: BuildModel_args_def)

text \<open>
  The four cases, with three, two and one pass; the call of \<^verbatim>\<open>BuildModel\<close> with all its
  arguments.
\<close>

theorem passes_performed_witness:
  "passes_of (mlpackMain X0 (P0\<lparr>passes := Some 3\<rparr>)) =
     [BuildModel_call
        \<lparr> arg_trainingSet = 7, arg_datasetInfo = [categorical 2], arg_labels = [0, 1, 0, 1],
          arg_numClasses = 2, arg_batchTraining = False, arg_confidence = 95 / 100,
          arg_maxSamples = 5000, arg_checkInterval = 100, arg_minSamples = 100,
          arg_bins = 10, arg_observationsBeforeBinning = 100 \<rparr>,
      Train_call 7 [0, 1, 0, 1] False, Train_call 7 [0, 1, 0, 1] False] \<and>
   passes_of (mlpackMain X0 (P0\<lparr>passes := Some 2, input_model := Some 5\<rparr>)) =
     [Train_call 7 [0, 1, 0, 1] False, Train_call 7 [0, 1, 0, 1] False] \<and>
   passes_of (mlpackMain X0 (P0\<lparr>batch_mode := True\<rparr>)) =
     [BuildModel_call
        \<lparr> arg_trainingSet = 7, arg_datasetInfo = [categorical 2], arg_labels = [0, 1, 0, 1],
          arg_numClasses = 2, arg_batchTraining = True, arg_confidence = 95 / 100,
          arg_maxSamples = 5000, arg_checkInterval = 100, arg_minSamples = 100,
          arg_bins = 10, arg_observationsBeforeBinning = 100 \<rparr>] \<and>
   passes_of (mlpackMain X0 (P0\<lparr>batch_mode := True, input_model := Some 5\<rparr>)) =
     [Train_call 7 [0, 1, 0, 1] True]"
proof -
  have c: "check_params (P0\<lparr>passes := Some 3\<rparr>) = Inr []"
      "check_params (P0\<lparr>passes := Some 2, input_model := Some 5\<rparr>) = Inr []"
      "check_params (P0\<lparr>batch_mode := True\<rparr>) = Inr []"
      "check_params (P0\<lparr>batch_mode := True, input_model := Some 5\<rparr>) = Inr []"
    by (simp_all add: check_params_def check_defs GetParam_numeric_split_strategy_def P0_def)
  have t: "training (P0\<lparr>passes := Some 3\<rparr>) = Some ([categorical 2], 7)"
      "training (P0\<lparr>passes := Some 2, input_model := Some 5\<rparr>) = Some ([categorical 2], 7)"
      "training (P0\<lparr>batch_mode := True\<rparr>) = Some ([categorical 2], 7)"
      "training (P0\<lparr>batch_mode := True, input_model := Some 5\<rparr>) = Some ([categorical 2], 7)"
    by (simp_all add: P0_def)
  have p: "1 \<le>s GetParam_passes (P0\<lparr>passes := Some 3\<rparr>)"
      "1 \<le>s GetParam_passes (P0\<lparr>passes := Some 2, input_model := Some 5\<rparr>)"
      "1 \<le>s GetParam_passes (P0\<lparr>batch_mode := True\<rparr>)"
      "1 \<le>s GetParam_passes (P0\<lparr>batch_mode := True, input_model := Some 5\<rparr>)"
    by (simp_all add: P0_def GetParam_passes_def word_sle_eq)
  show ?thesis
    using passes_performed [OF c(1) t(1) p(1), of X0]
      passes_performed [OF c(2) t(2) p(2), of X0]
      passes_performed [OF c(3) t(3) p(3), of X0]
      passes_performed [OF c(4) t(4) p(4), of X0]
    by (simp add: force_streaming_def to_size_t_def GetParam_passes_def GetParam_labels_def
        GetParam_confidence_def GetParam_max_samples_def GetParam_min_samples_def
        GetParam_bins_def GetParam_observations_before_binning_def BuildModel_args_def
        X0_def P0_def replicate_numeral)
qed

subsection \<open>C10: a pass count of zero\<close>

text \<open>
  C10. With training data, no input model, no batch flag and a pass count of 0, the
  decrement of line 200 wraps the unsigned counter around to \<open>2 ^ 64 - 1\<close>, and the loop of
  lines 213 and 214 runs with that bound: after \<^verbatim>\<open>BuildModel\<close> the run calls \<^verbatim>\<open>Train\<close>
  18446744073709551615 times instead of not at all.
\<close>

theorem zero_passes_underflow:
  assumes "check_params P = Inr ws" and "training P = Some (info, tset)"
    and "input_model P = None" and "\<not> batch_mode P" and "passes P = Some 0"
  shows "snd (build_step X P info tset (GetParam_labels P) False
                (to_size_t (GetParam_passes P)) m) = - 1 \<and>
         unat (- 1 :: size_t) = 2 ^ 64 - 1 \<and>
         passes_of (mlpackMain X P) =
           BuildModel_call (BuildModel_args X P info tset (GetParam_labels P) False) #
           replicate 18446744073709551615 (Train_call tset (GetParam_labels P) False)"
proof -
  from assms(5) have z: "to_size_t (GetParam_passes P) = 0"
    by (simp add: GetParam_passes_def to_size_t_def)
  show ?thesis
    using assms(2-4)
    by (simp add: passes_of_mlpackMain [OF assms(1)] training_calls z build_step_def
        HasParam_simps force_streaming_def unat_minus_1_size_t)
qed

text \<open>The run on \<open>P0\<close> with \<^verbatim>\<open>passes = 0\<close>.\<close>

theorem zero_passes_underflow_witness:
  "check_params (P0\<lparr>passes := Some 0\<rparr>) = Inr [] \<and>
   passes (P0\<lparr>passes := Some 0\<rparr>) = Some 0 \<and>
   length (passes_of (mlpackMain X0 (P0\<lparr>passes := Some 0\<rparr>))) = 18446744073709551616"
proof -
  have c: "check_params (P0\<lparr>passes := Some 0\<rparr>) = Inr []"
    by (simp add: check_params_def check_defs GetParam_numeric_split_strategy_def P0_def)
  have t: "training (P0\<lparr>passes := Some 0\<rparr>) = Some ([categorical 2], 7)"
    and i: "input_model (P0\<lparr>passes := Some 0\<rparr>) = None"
    and b: "\<not> batch_mode (P0\<lparr>passes := Some 0\<rparr>)"
    and z: "passes (P0\<lparr>passes := Some 0\<rparr>) = Some 0"
    by (simp_all add: P0_def)
  from zero_passes_underflow [OF c t i b z, of X0] c z show ?thesis
    by simp
qed

subsection \<open>C3: confidence and sample counts\<close>

lemma HasParam_unchecked_update:
  "name \<noteq> ''confidence'' \<Longrightarrow> name \<noteq> ''max_samples'' \<Longrightarrow> name \<noteq> ''min_samples'' \<Longrightarrow>
   HasParam (P\<lparr>confidence := c, min_samples := lo, max_samples := hi\<rparr>) name = HasParam P name"
  by (simp add: HasParam_def)

lemma check_params_unchecked_update:
  "check_params (P\<lparr>confidence := c, min_samples := lo, max_samples := hi\<rparr>) = check_params P"
  by (simp add: check_params_def RequireAtLeastOnePassed_def RequireOnlyOnePassed_def
      ReportIgnoredParam_def HasParam_unchecked_update GetParam_numeric_split_strategy_def)

lemma initial_state_unchecked_update:
  "initial_state X (P\<lparr>confidence := c, min_samples := lo, max_samples := hi\<rparr>) ws =
   initial_state X P ws"
  by (simp add: initial_state_def initial_model_def HasParam_unchecked_update
      GetParam_numeric_split_strategy_def)

lemma training_phase_unchecked_update:
  "input_model P \<noteq> None \<Longrightarrow>
   training_phase X (P\<lparr>confidence := c, min_samples := lo, max_samples := hi\<rparr>) S =
   training_phase X P S"
  by (simp add: training_phase_def build_step_def train_step_def HasParam_unchecked_update
      HasParam_simps GetParam_passes_def GetParam_labels_def Let_def split: option.split)

lemma training_error_unchecked_update:
  "training_error X (P\<lparr>confidence := c, min_samples := lo, max_samples := hi\<rparr>) S =
   training_error X P S"
  by (simp add: training_error_def HasParam_unchecked_update)

lemma testing_phase_unchecked_update:
  "testing_phase X (P\<lparr>confidence := c, min_samples := lo, max_samples := hi\<rparr>) S =
   testing_phase X P S"
  by (simp add: testing_phase_def HasParam_unchecked_update GetParam_test_labels_def Let_def
      split: option.split)

lemma save_model_unchecked_update:
  "save_model (P\<lparr>confidence := c, min_samples := lo, max_samples := hi\<rparr>) S = save_model P S"
  by (simp add: save_model_def HasParam_unchecked_update)

lemma first_call_of_fresh_run:
  assumes "check_params P = Inr ws" and "training P = Some (info, tset)"
    and "input_model P = None"
  shows "take 1 (calls_of (mlpackMain X P)) =
    [BuildModel_call (BuildModel_args X P info tset (GetParam_labels P)
       (force_streaming (to_size_t (GetParam_passes P)) (batch_mode P)))]"
proof -
  from calls_of_mlpackMain [OF assms(1), of X] obtain rest where
    "calls_of (mlpackMain X P) =
       calls (model (training_phase X P (initial_state X P ws))) @ rest"
    by blast
  then show ?thesis
    by (simp add: training_calls assms(2,3))
qed

text \<open>
  C3, as amended. The driver does not validate the confidence, the minimum or the maximum
  number of samples. Their values never change the outcome of the parameter checks; when
  an input model is supplied they do not change the run at all; and when a fresh model is
  built, the first call on the model is \<^verbatim>\<open>BuildModel\<close> with the confidence as given and the
  two sample counts converted to \<^verbatim>\<open>size_t\<close>.
\<close>

theorem confidence_and_samples_unchecked:
  "check_params (P\<lparr>confidence := c, min_samples := lo, max_samples := hi\<rparr>) = check_params P \<and>
   (input_model P \<noteq> None \<longrightarrow>
      mlpackMain X (P\<lparr>confidence := c, min_samples := lo, max_samples := hi\<rparr>) = mlpackMain X P) \<and>
   (check_params P = Inr ws \<and> training P = Some (info, tset) \<and> input_model P = None \<longrightarrow>
      take 1 (calls_of (mlpackMain X P)) =
        [BuildModel_call (BuildModel_args X P info tset (GetParam_labels P)
           (force_streaming (to_size_t (GetParam_passes P)) (batch_mode P)))] \<and>
      arg_confidence (BuildModel_args X P info tset labs b) = GetParam_confidence P \<and>
      arg_minSamples (BuildModel_args X P info tset labs b) = to_size_t (GetParam_min_samples P) \<and>
      arg_maxSamples (BuildModel_args X P info tset labs b) = to_size_t (GetParam_max_samples P))"
proof (intro conjI impI)
  show "check_params (P\<lparr>confidence := c, min_samples := lo, max_samples := hi\<rparr>) = check_params P"
    by (rule check_params_unchecked_update)
next
  assume "input_model P \<noteq> None"
  then show "mlpackMain X (P\<lparr>confidence := c, min_samples := lo, max_samples := hi\<rparr>) = mlpackMain X P"
    by (simp add: mlpackMain_def check_params_unchecked_update initial_state_unchecked_update
        training_phase_unchecked_update training_error_unchecked_update
        testing_phase_unchecked_update save_model_unchecked_update Let_def
        split: sum.split option.split)
next
  assume "check_params P = Inr ws \<and> training P = Some (info, tset) \<and> input_model P = None"
  then have "check_params P = Inr ws" and "training P = Some (info, tset)"
    and "input_model P = None"
    by simp_all
  then show "take 1 (calls_of (mlpackMain X P)) =
        [BuildModel_call (BuildModel_args X P info tset (GetParam_labels P)
           (force_streaming (to_size_t (GetParam_passes P)) (batch_mode P)))]"
    by (rule first_call_of_fresh_run)
qed (simp_all add: BuildModel_args_def)


text \<open>A run with an input model, and the run on \<open>P0\<close>, which builds a fresh model.\<close>

theorem confidence_and_samples_unchecked_witness:
  "input_model (P0\<lparr>input_model := Some 5\<rparr>) \<noteq> None \<and>
   mlpackMain X0 (P0\<lparr>input_model := Some 5, confidence := Some 2, min_samples := Some 10,
      max_samples := Some 5\<rparr>) = mlpackMain X0 (P0\<lparr>input_model := Some 5\<rparr>) \<and>
   check_params P0 = Inr [] \<and> training P0 = Some ([categorical 2], 7) \<and> input_model P0 = None \<and>
   take 1 (calls_of (mlpackMain X0 P0)) =
     [BuildModel_call (BuildModel_args X0 P0 [categorical 2] 7 [0, 1, 0, 1] False)]"
proof -
  have c: "check_params P0 = Inr []"
    by (simp add: check_params_def check_defs GetParam_numeric_split_strategy_def P0_def)
  have t: "training P0 = Some ([categorical 2], 7)" and i: "input_model P0 = None"
    by (simp_all add: P0_def)
  have j: "input_model (P0\<lparr>input_model := Some 5\<rparr>) \<noteq> None"
    by simp
  from confidence_and_samples_unchecked
      [where P = "P0\<lparr>input_model := Some 5\<rparr>" and c = "Some 2" and lo = "Some 10"
         and hi = "Some 5" and X = X0]
    confidence_and_samples_unchecked
      [where P = P0 and X = X0 and ws = "[]" and info = "[categorical 2]" and tset = 7]
    c t i j
  show ?thesis
    by (simp add: GetParam_labels_def GetParam_passes_def force_streaming_def to_size_t_def
        P0_def)
qed

text \<open>
  C3 as stated fails: with an input model, a confidence of 2, a minimum of 10 samples and a
  maximum of 5, the run ends normally and has trained the model.
\<close>

theorem invalid_configuration_counterexample:
  "\<not> (0 < GetParam_confidence (P0\<lparr>input_model := Some 5, confidence := Some 2,
          min_samples := Some 10, max_samples := Some 5\<rparr>) \<and>
       GetParam_confidence (P0\<lparr>input_model := Some 5, confidence := Some 2,
          min_samples := Some 10, max_samples := Some 5\<rparr>) < 1) \<and>
   GetParam_max_samples (P0\<lparr>input_model := Some 5, confidence := Some 2,
          min_samples := Some 10, max_samples := Some 5\<rparr>) <s
     GetParam_min_samples (P0\<lparr>input_model := Some 5, confidence := Some 2,
          min_samples := Some 10, max_samples := Some 5\<rparr>) \<and>
   finished (mlpackMain X0 (P0\<lparr>input_model := Some 5, confidence := Some 2,
          min_samples := Some 10, max_samples := Some 5\<rparr>)) \<and>
   passes_of (mlpackMain X0 (P0\<lparr>input_model := Some 5, confidence := Some 2,
          min_samples := Some 10, max_samples := Some 5\<rparr>)) = [Train_call 7 [0, 1, 0, 1] False]"
  by (simp add: passes_of_def calls_of_def run_defs word_sless_alt)

subsection \<open>C5: an unknown numeric split strategy\<close>

lemma mlpackMain_fatal:
  "check_params P = Inl msg \<Longrightarrow> mlpackMain X P = Fatal_in_checks msg"
  by (simp add: mlpackMain_def)

text \<open>
  C5. A numeric split strategy other than \<^verbatim>\<open>domingos\<close> and \<^verbatim>\<open>binary\<close> ends the run with a
  fatal error in the parameter checks: no model object exists and nothing has been called
  on a model.
\<close>

theorem unknown_strategy_is_fatal:
  assumes "numeric_split_strategy P = Some s" and "s \<noteq> ''domingos''" and "s \<noteq> ''binary''"
  shows "\<exists>msg. mlpackMain X P = Fatal_in_checks msg \<and> model_of (mlpackMain X P) = None \<and>
           calls_of (mlpackMain X P) = []"
proof -
  from assms have "GetParam_numeric_split_strategy P \<notin> {''domingos'', ''binary''}"
    by (simp add: GetParam_numeric_split_strategy_def)
  then have "\<exists>msg. check_params P = Inl msg"
    by (simp only: check_params_Inl_iff) simp
  then obtain msg where "check_params P = Inl msg" ..
  then have "mlpackMain X P = Fatal_in_checks msg"
    by (rule mlpackMain_fatal)
  then show ?thesis
    by (simp add: model_of_def state_of_def calls_of_def)
qed

text \<open>The run on \<open>P0\<close> with the strategy \<^verbatim>\<open>hoeffding\<close>.\<close>

theorem unknown_strategy_is_fatal_witness:
  "numeric_split_strategy (P0\<lparr>numeric_split_strategy := Some ''hoeffding''\<rparr>) = Some ''hoeffding'' \<and>
   ''hoeffding'' \<noteq> ''domingos'' \<and> ''hoeffding'' \<noteq> ''binary'' \<and>
   (\<exists>msg. mlpackMain X0 (P0\<lparr>numeric_split_strategy := Some ''hoeffding''\<rparr>) = Fatal_in_checks msg) \<and>
   calls_of (mlpackMain X0 (P0\<lparr>numeric_split_strategy := Some ''hoeffding''\<rparr>)) = []"
proof -
  have h: "numeric_split_strategy (P0\<lparr>numeric_split_strategy := Some ''hoeffding''\<rparr>) =
      Some ''hoeffding''"
    by simp
  have d: "''hoeffding'' \<noteq> ''domingos''" and b: "''hoeffding'' \<noteq> ''binary''"
    by simp_all
  from unknown_strategy_is_fatal [OF h d b, of X0] h d b show ?thesis
    by blast
qed

subsection \<open>C6: no classification without a model\<close>

lemma origin_of_run:
  assumes "model_of (mlpackMain X P) = Some m"
  shows "origin m = origin (initial_model P)"
proof -
  have o: "origin (model (training_phase X P (initial_state X P ws))) = origin (initial_model P)"
    for ws
    by (simp add: origin_training_phase initial_state_def)
  from assms show ?thesis
    by (auto simp add: mlpackMain_def model_of_def state_of_def Let_def o
        training_error_Inl training_error_Inr count_nodes_simps testing_phase_Inl
        testing_phase_Inr save_model_simps split: sum.splits option.splits)
qed

lemma calls_of_model_of:
  "model_of r = Some m \<Longrightarrow> calls_of r = calls m"
  by (cases r) (simp_all add: model_of_def state_of_def calls_of_def)

lemma model_of_Some_checks:
  "model_of (mlpackMain X P) = Some m \<Longrightarrow> \<exists>ws. check_params P = Inr ws"
  by (cases "check_params P") (simp_all add: mlpackMain_def model_of_def state_of_def)

text \<open>
  C6. A run with neither a training set nor an input model ends with a fatal error in the
  parameter checks; and in every run, each call of \<^verbatim>\<open>Classify\<close> comes after \<^verbatim>\<open>BuildModel\<close>
  or is made on a model loaded from the input model.
\<close>

theorem classify_needs_model:
  "(training P = None \<and> input_model P = None \<longrightarrow>
      (\<exists>msg. mlpackMain X P = Fatal_in_checks msg)) \<and>
   never_classifies_uninitialized (mlpackMain X P)"
proof (intro conjI impI)
  assume "training P = None \<and> input_model P = None"
  then have "\<exists>msg. check_params P = Inl msg"
    by (simp only: check_params_Inl_iff) simp
  then show "\<exists>msg. mlpackMain X P = Fatal_in_checks msg"
    by (auto dest: mlpackMain_fatal)
next
  show "never_classifies_uninitialized (mlpackMain X P)"
  proof (cases "model_of (mlpackMain X P)")
    case None
    then show ?thesis by (simp add: never_classifies_uninitialized_def)
  next
    case (Some m)
    from model_of_Some_checks [OF Some] obtain ws where c: "check_params P = Inr ws" ..
    have o: "origin m = origin (initial_model P)"
      using Some by (rule origin_of_run)
    have "classifies_initialized (loaded (origin m)) (calls m)"
    proof (cases "input_model P")
      case (Some f)
      then have "loaded (origin m)"
        by (simp add: o initial_model_def new_model_def)
      then show ?thesis
        by (simp add: classifies_initialized_True)
    next
      case None
      with check_params_Inr(1) [OF c] obtain info tset where t: "training P = Some (info, tset)"
        by auto
      from first_call_of_fresh_run [OF c t None, of X] calls_of_model_of [OF \<open>model_of (mlpackMain X P) = Some m\<close>]
      obtain rest where "calls m = BuildModel_call (BuildModel_args X P info tset (GetParam_labels P)
           (force_streaming (to_size_t (GetParam_passes P)) (batch_mode P))) # rest"
        by (cases "calls m") simp_all
      then show ?thesis
        by (simp add: classifies_initialized_True)
    qed
    with Some show ?thesis
      by (simp add: never_classifies_uninitialized_def)
  qed
qed

text \<open>The run on \<open>P0\<close> without its training set, and the run on \<open>P0\<close>.\<close>

theorem classify_needs_model_witness:
  "training (P0\<lparr>training := None\<rparr>) = None \<and> input_model (P0\<lparr>training := None\<rparr>) = None \<and>
   (\<exists>msg. mlpackMain X0 (P0\<lparr>training := None\<rparr>) = Fatal_in_checks msg) \<and>
   model_of (mlpackMain X0 P0) \<noteq> None \<and>
   never_classifies_uninitialized (mlpackMain X0 P0)"
proof -
  have h: "training (P0\<lparr>training := None\<rparr>) = None \<and> input_model (P0\<lparr>training := None\<rparr>) = None"
    by (simp add: P0_def)
  have m: "model_of (mlpackMain X0 P0) \<noteq> None"
    by (simp add: model_of_def state_of_def run_defs)
  from classify_needs_model [of "P0\<lparr>training := None\<rparr>" X0] classify_needs_model [of P0 X0] h m
  show ?thesis
    by blast
qed

subsection \<open>C8: the tree type of a fresh model\<close>

text \<open>
  C8. Without an input model, a run that gets past the checks constructs the model with
  one tree type, fixed by the pair of gain criterion and numeric split strategy:
  information gain exactly when \<^verbatim>\<open>info_gain\<close> is set and Gini impurity otherwise, the
  binned strategy exactly when the strategy parameter is \<^verbatim>\<open>domingos\<close> and the binary
  threshold otherwise, which is also the default when no strategy is passed.
\<close>

theorem fresh_model_variant:
  assumes "check_params P = Inr ws" and "input_model P = None"
  shows "\<exists>t. tree_type_of (mlpackMain X P) = Some t \<and>
           criterion_of t = (if info_gain P then informationGain else giniImpurity) \<and>
           strategy_of t =
             (if GetParam_numeric_split_strategy P = ''domingos'' then binnedHistogram
              else binaryThreshold) \<and>
           (numeric_split_strategy P = None \<longrightarrow> strategy_of t = binaryThreshold) \<and>
           (\<not> info_gain P \<longrightarrow> criterion_of t = giniImpurity)"
proof -
  from assms(1) have "model_of (mlpackMain X P) \<noteq> None"
    by (simp add: mlpackMain_def model_of_def state_of_def Let_def split: sum.split)
  then obtain m where m: "model_of (mlpackMain X P) = Some m"
    by blast
  then have o: "origin m = origin (initial_model P)"
    by (rule origin_of_run)
  from check_params_Inr(3) [OF assms(1)] assms(2) show ?thesis
    by (auto simp add: tree_type_of_def m o initial_model_def new_model_def HasParam_simps
        GetParam_numeric_split_strategy_def split: option.splits)
qed

text \<open>Information gain with \<^verbatim>\<open>domingos\<close>, and the defaults of \<open>P0\<close>.\<close>

theorem fresh_model_variant_witness:
  "check_params (P0\<lparr>info_gain := True, numeric_split_strategy := Some ''domingos''\<rparr>) = Inr [] \<and>
   input_model (P0\<lparr>info_gain := True, numeric_split_strategy := Some ''domingos''\<rparr>) = None \<and>
   tree_type_of (mlpackMain X0 (P0\<lparr>info_gain := True, numeric_split_strategy := Some ''domingos''\<rparr>)) =
     Some INFO_HOEFFDING \<and>
   tree_type_of (mlpackMain X0 P0) = Some GINI_BINARY"
proof -
  have c: "check_params (P0\<lparr>info_gain := True, numeric_split_strategy := Some ''domingos''\<rparr>) = Inr []"
    and c0: "check_params P0 = Inr []"
    by (simp_all add: check_params_def check_defs GetParam_numeric_split_strategy_def P0_def)
  have i: "input_model (P0\<lparr>info_gain := True, numeric_split_strategy := Some ''domingos''\<rparr>) = None"
    and i0: "input_model P0 = None"
    by (simp_all add: P0_def)
  from fresh_model_variant [OF c i, of X0] obtain t where
    "tree_type_of (mlpackMain X0 (P0\<lparr>info_gain := True, numeric_split_strategy := Some ''domingos''\<rparr>)) = Some t"
    and "criterion_of t = informationGain" and "strategy_of t = binnedHistogram"
    by (auto simp add: GetParam_numeric_split_strategy_def P0_def)
  moreover from fresh_model_variant [OF c0 i0, of X0] obtain t0 where
    "tree_type_of (mlpackMain X0 P0) = Some t0"
    and "criterion_of t0 = giniImpurity" and "strategy_of t0 = binaryThreshold"
    by (auto simp add: GetParam_numeric_split_strategy_def P0_def)
  ultimately show ?thesis
    using c i by (cases t; cases t0) simp_all
qed

subsection \<open>C4: the schema of the test set\<close>

text \<open>
  The \<^verbatim>\<open>DatasetInfo\<close> written into the test parameter is that of the training set of the
  same run, and the default-constructed one when the run has no training set.
\<close>

lemma datasetInfo_training_phase:
  "datasetInfo (training_phase X P S) =
    (case training P of None \<Rightarrow> datasetInfo S | Some (info, tset) \<Rightarrow> info)"
  by (simp add: training_phase_def Let_def split: option.split prod.split)

lemma test_info_of_mlpackMain:
  assumes "finished (mlpackMain X P)" and "test P \<noteq> None"
  shows "test_info_of (mlpackMain X P) =
    Some (case training P of None \<Rightarrow> default_DatasetInfo | Some (info, tset) \<Rightarrow> info)"
  using assms
  by (auto simp add: mlpackMain_def test_info_of_def state_of_def Let_def
      training_error_Inr count_nodes_simps testing_phase_Inr save_model_simps
      datasetInfo_training_phase initial_state_def
      split: sum.splits option.splits)

text \<open>
  C4 fails on the code. The run on \<open>P0\<close> builds a model on a training set with one
  categorical dimension of arity 2 and saves it; the run on \<open>P_test\<close> loads that model and
  a test set, without training data. It writes the default-constructed \<^verbatim>\<open>DatasetInfo\<close> into
  the test parameter (line 245), not the schema the model was built with: \<^verbatim>\<open>datasetInfo\<close>
  is only assigned when training data is passed (line 179).
\<close>

theorem loaded_model_test_schema:
  "map_option (\<lambda>m. built_with (calls m)) saved_model = Some [[categorical 2]] \<and>
   input_model P_test = saved_model \<and> training P_test = None \<and>
   finished (mlpackMain X0 P_test) \<and>
   test_info_of (mlpackMain X0 P_test) = Some default_DatasetInfo \<and>
   default_DatasetInfo \<noteq> [categorical 2]"
  by (simp add: test_info_of_def P_test_def saved_model_def saved_model_of_def state_of_def
      run_defs)

subsection \<open>C7: the reported accuracy\<close>






text \<open>Facts on the value of a \<^verbatim>\<open>double\<close> expression.\<close>

lemma dyadic_integer: "real_of_int \<lfloor>z\<rfloor> = z \<Longrightarrow> \<bar>z\<bar> \<le> 2 ^ 53 \<Longrightarrow> dyadic k z"
  by (cases k) simp_all

lemma is_double_small:
  "is_double 1" "is_double 3" "is_double 4" "is_double 75" "is_double (3 / 4)"
proof -
  show "is_double 1" "is_double 3" "is_double 4" "is_double 75"
    by (simp_all add: is_double_def dyadic_integer)
  have "dyadic 61 (2 * (2 * (3 / 4)))"
    by (simp add: dyadic_integer)
  then have "dyadic (Suc (Suc 61)) (3 / 4)"
    by (simp only: dyadic.simps) simp
  then show "is_double (3 / 4)"
    by (simp add: is_double_def eval_nat_numeral)
qed

lemma dyadic_multiple: "dyadic k z \<Longrightarrow> \<exists>j m. z * 2 ^ j = real_of_int m"
proof (induction k arbitrary: z)
  case 0
  then obtain n where "z = real_of_int n"
    by auto
  then have "z * 2 ^ 0 = real_of_int n"
    by simp
  then show ?case by blast
next
  case (Suc k)
  from Suc.prems consider n where "z = real_of_int n" | "dyadic k (2 * z)"
    by auto
  then show ?case
  proof cases
    case 1
    then have "z * 2 ^ 0 = real_of_int n"
      by simp
    then show ?thesis by blast
  next
    case 2
    from Suc.IH [OF 2] obtain j m where "2 * z * 2 ^ j = real_of_int m"
      by blast
    then have "z * 2 ^ Suc j = real_of_int m"
      by (simp add: mult.commute mult.left_commute)
    then show ?thesis by blast
  qed
qed

lemma power_2_mod_3: "(2 :: int) ^ j mod 3 \<noteq> 0"
proof (induction j)
  case 0
  show ?case by simp
next
  case (Suc j)
  have "(2 :: int) ^ Suc j mod 3 = (2 * (2 ^ j mod 3)) mod 3"
    by (simp add: mod_mult_right_eq)
  moreover have "0 \<le> (2 :: int) ^ j mod 3" and "(2 :: int) ^ j mod 3 < 3"
    by simp_all
  ultimately show ?case
    using Suc.IH by presburger
qed

lemma third_is_no_double: "\<not> is_double (1 / 3)"
proof
  assume "is_double (1 / 3)"
  then obtain j m where "(1 / 3 :: real) * 2 ^ j = real_of_int m"
    unfolding is_double_def by (blast dest: dyadic_multiple)
  then have "real_of_int (2 ^ j) = real_of_int (3 * m)"
    by simp
  then have "(2 :: int) ^ j = 3 * m"
    by (simp only: of_int_eq_iff)
  then have "(2 :: int) ^ j mod 3 = 0"
    by simp
  with power_2_mod_3 [of j] show False
    by simp
qed

text \<open>One of three correct: the quotient is rounded, and the expression is given no value.\<close>

lemma exact_value_one_of_three: "exact_value (percentage 1 3) = None"
  by (simp add: percentage_def exactly_def is_double_small third_is_no_double)







end
